theory Spec2Isabelle
  imports Main
begin

unbundle bit_operations_syntax

section \<open>The installer: \<^verbatim>\<open>src/python/setup.py\<close>\<close>

text \<open>
  \<^verbatim>\<open>PostInstallCommand.download_binary\<close> picks the release asset for the host
  platform, downloads it next to the package and makes it executable. Python strings
  are modelled as \<^typ>\<open>string\<close> (non-ASCII text, such as the emoji of the progress
  messages, as its UTF-8 bytes).
\<close>

subsection \<open>Constants and library functions\<close>

definition VERSION :: string where
  "VERSION = ''1.0.0''"

definition REPO :: string where
  "REPO = ''Lumos-Labs-HQ/graft''"

text \<open>\<^verbatim>\<open>stat.S_IEXEC\<close> is \<^verbatim>\<open>0o100\<close>.\<close>

definition S_IEXEC :: nat where
  "S_IEXEC = 64"

text \<open>
  \<^verbatim>\<open>str.lower()\<close> on ASCII text, which is what \<^verbatim>\<open>platform.system()\<close> and
  \<^verbatim>\<open>platform.machine()\<close> return: the letters A to Z move to a to z, every other
  character stays.
\<close>

definition lower_char :: "char \<Rightarrow> char" where
  "lower_char c =
     (let n = (of_char c :: nat) in if 65 \<le> n \<and> n \<le> 90 then char_of (n + 32) else c)"

definition lower :: "string \<Rightarrow> string" where
  "lower s = map lower_char s"

text \<open>Truthiness of the result of \<^verbatim>\<open>dict.get\<close>: \<^verbatim>\<open>None\<close> and the empty string are false.\<close>

fun truthy :: "string option \<Rightarrow> bool" where
  "truthy None = False"
| "truthy (Some s) = (s \<noteq> [])"

text \<open>A value inside an f-string: \<^verbatim>\<open>None\<close> is formatted as the text \<^verbatim>\<open>None\<close>.\<close>

fun fmt :: "string option \<Rightarrow> string" where
  "fmt None = ''None''"
| "fmt (Some s) = s"

subsection \<open>Exceptions, effects and the environment\<close>

text \<open>
  \<^verbatim>\<open>Exception\<close> is the one the installer raises itself (line 27); \<^verbatim>\<open>EnvError\<close> stands
  for whatever a library call raises (\<^verbatim>\<open>OSError\<close>, \<^verbatim>\<open>URLError\<close>, \<^verbatim>\<open>UnicodeEncodeError\<close>).
\<close>

datatype exn = Exception string | EnvError string

text \<open>The calls that touch the outside world, in the order they are issued.\<close>

datatype event =
    Makedirs string
  | Print string
  | Urlretrieve string string
  | Stat string
  | Chmod string nat

text \<open>
  What the installer reads from its environment, and how the environment answers each
  call: \<^verbatim>\<open>None\<close> (or \<^verbatim>\<open>Inr\<close>) when the call returns, the exception when it raises.
  \<^verbatim>\<open>os.path.join\<close> depends on the host (\<^verbatim>\<open>posixpath\<close> or \<^verbatim>\<open>ntpath\<close>) and is a
  parameter; \<^verbatim>\<open>file_dir\<close> is \<^verbatim>\<open>os.path.dirname(__file__)\<close>.
\<close>

record env =
  platform_system :: string
  platform_machine :: string
  file_dir :: string
  path_join :: "string \<Rightarrow> string list \<Rightarrow> string"
  os_makedirs :: "string \<Rightarrow> exn option"
  print :: "string \<Rightarrow> exn option"
  urlretrieve :: "string \<Rightarrow> string \<Rightarrow> exn option"
  os_stat_mode :: "string \<Rightarrow> exn + nat"
  os_chmod :: "string \<Rightarrow> nat \<Rightarrow> exn option"

subsection \<open>\<^verbatim>\<open>download_binary\<close>, lines 20 to 31: the release asset\<close>

definition platform_map :: "(string \<times> string) list" where
  "platform_map = [(''darwin'', ''darwin''), (''linux'', ''linux''), (''windows'', ''win32'')]"

definition arch_map :: "(string \<times> string) list" where
  "arch_map =
     [(''x86_64'', ''x64''), (''amd64'', ''x64''), (''arm64'', ''arm64''), (''aarch64'', ''arm64'')]"

text \<open>The locals of lines 23 to 31.\<close>

record target =
  mapped_platform :: "string option"
  mapped_arch :: "string option"
  binary_name :: string
  download_name :: string
  url :: string

text \<open>
  \<^verbatim>\<open>system\<close> and \<^verbatim>\<open>machine\<close> are the lowercased values of lines 17 and 18. The
  result is the exception of line 27 or the locals as they stand after line 31.
\<close>

definition select_target :: "string \<Rightarrow> string \<Rightarrow> exn + target" where
  "select_target system machine =
     (let mp = map_of platform_map system;
          ma = map_of arch_map machine
      in if \<not> truthy mp \<or> \<not> truthy ma
         then Inl (Exception (''Unsupported platform: '' @ system @ ''-'' @ machine))
         else
           (let bn = (if system = ''windows'' then ''graft.exe'' else ''graft'');
                dn = ''graft-'' @ fmt mp @ ''-'' @ fmt ma
                       @ (if system = ''windows'' then ''.exe'' else '''');
                u = ''https://github.com/'' @ REPO @ ''/releases/download/v'' @ VERSION
                      @ ''/'' @ dn
            in Inr \<lparr>mapped_platform = mp, mapped_arch = ma, binary_name = bn,
                     download_name = dn, url = u\<rparr>))"

subsection \<open>\<^verbatim>\<open>download_binary\<close>, lines 33 to 43: the installation\<close>

text \<open>Lines 33 and 35.\<close>

definition bin_dir :: "env \<Rightarrow> string" where
  "bin_dir e = path_join e (file_dir e) [''graft_orm'', ''bin'']"

definition binary_path :: "env \<Rightarrow> string \<Rightarrow> string" where
  "binary_path e bn = path_join e (bin_dir e) [bn]"

text \<open>The three progress messages (lines 37, 38 and 43).\<close>

definition msg_installing :: "string \<Rightarrow> string \<Rightarrow> string" where
  "msg_installing system machine =
     [CHR 0xF0, CHR 0x9F, CHR 0x93, CHR 0xA6] @ '' Installing Graft v'' @ VERSION
       @ '' for '' @ system @ ''-'' @ machine @ ''...''"

definition msg_downloading :: "string \<Rightarrow> string" where
  "msg_downloading u = [CHR 0xF0, CHR 0x9F, CHR 0x93, CHR 0xA5] @ '' Downloading from: '' @ u"

definition msg_installed :: string where
  "msg_installed = [CHR 0xE2, CHR 0x9C, CHR 0x85] @ '' Graft installed successfully!''"

text \<open>
  Each step records the call it issues and stops at the first call that raises; the
  result is the calls issued so far and the exception, or \<^verbatim>\<open>Inr ()\<close> on return.
\<close>

definition install_target ::
  "env \<Rightarrow> string \<Rightarrow> string \<Rightarrow> target \<Rightarrow> event list \<times> (exn + unit)" where
  "install_target e system machine t =
     (let bd = bin_dir e;
          bp = binary_path e (binary_name t);
          m1 = msg_installing system machine;
          m2 = msg_downloading (url t)
      in case os_makedirs e bd of
           Some x \<Rightarrow> ([Makedirs bd], Inl x)
         | None \<Rightarrow>
        (case print e m1 of
           Some x \<Rightarrow> ([Makedirs bd, Print m1], Inl x)
         | None \<Rightarrow>
        (case print e m2 of
           Some x \<Rightarrow> ([Makedirs bd, Print m1, Print m2], Inl x)
         | None \<Rightarrow>
        (case urlretrieve e (url t) bp of
           Some x \<Rightarrow> ([Makedirs bd, Print m1, Print m2, Urlretrieve (url t) bp], Inl x)
         | None \<Rightarrow>
        (case os_stat_mode e bp of
           Inl x \<Rightarrow> ([Makedirs bd, Print m1, Print m2, Urlretrieve (url t) bp, Stat bp], Inl x)
         | Inr mode \<Rightarrow>
        (case os_chmod e bp (mode OR S_IEXEC) of
           Some x \<Rightarrow>
             ([Makedirs bd, Print m1, Print m2, Urlretrieve (url t) bp, Stat bp,
               Chmod bp (mode OR S_IEXEC)], Inl x)
         | None \<Rightarrow>
        (case print e msg_installed of
           Some x \<Rightarrow>
             ([Makedirs bd, Print m1, Print m2, Urlretrieve (url t) bp, Stat bp,
               Chmod bp (mode OR S_IEXEC), Print msg_installed], Inl x)
         | None \<Rightarrow>
             ([Makedirs bd, Print m1, Print m2, Urlretrieve (url t) bp, Stat bp,
               Chmod bp (mode OR S_IEXEC), Print msg_installed], Inr ()))))))))"

subsection \<open>\<^verbatim>\<open>download_binary\<close>, lines 16 to 43\<close>

definition download_binary :: "env \<Rightarrow> event list \<times> (exn + unit)" where
  "download_binary e =
     (let system = lower (platform_system e);
          machine = lower (platform_machine e)
      in case select_target system machine of
           Inl x \<Rightarrow> ([], Inl x)
         | Inr t \<Rightarrow> install_target e system machine t)"

subsection \<open>A sample host\<close>

text \<open>
  An environment in which every call returns: \<^verbatim>\<open>posixpath.join\<close> on relative
  components, a package directory \<^verbatim>\<open>/pkg\<close> and a downloaded file of mode \<^verbatim>\<open>0o644\<close>.
\<close>

definition posix_join :: "string \<Rightarrow> string list \<Rightarrow> string" where
  "posix_join a ps = foldl (\<lambda>x y. x @ ''/'' @ y) a ps"

definition quiet_env :: "string \<Rightarrow> string \<Rightarrow> env" where
  "quiet_env sys mach =
     \<lparr>platform_system = sys, platform_machine = mach, file_dir = ''/pkg'',
      path_join = posix_join,
      os_makedirs = (\<lambda>_. None), print = (\<lambda>_. None), urlretrieve = (\<lambda>_ _. None),
      os_stat_mode = (\<lambda>_. Inr 420), os_chmod = (\<lambda>_ _. None)\<rparr>"

section \<open>The Relation Resolver (spec, section 4.5)\<close>

text \<open>
  The eager-loading planner is part of the prebuilt \<^verbatim>\<open>graft\<close> binary that the installer
  downloads; \<^verbatim>\<open>src/example/python/main.py\<close> only calls the client generated from it
  (\<^verbatim>\<open>get_post_details_with_all_relations\<close>). Its data model and algorithm are taken from
  sections 3, 4.5 and 7 of the specification. Records, keys and filters are type parameters
  \<open>'r\<close>, \<open>'k\<close> and \<open>'f\<close>; a composite key is a tuple for \<open>'k\<close>.
\<close>

text \<open>Modelled from the spec: the cardinality tag of a \<^verbatim>\<open>ForeignKeyDef\<close> (section 3).\<close>

datatype cardinality = OneToMany | ManyToOne | ManyToMany

text \<open>
  Modelled from the spec: what the resolver reads of the \<^verbatim>\<open>ForeignKeyDef\<close> behind a relation
  edge: the table to fetch from, the cardinality, the key value collected from a parent
  record (step 1) and the foreign-key value by which a returned row is partitioned (step 3).
\<close>

record ('r, 'k) edge =
  edge_target :: string
  edge_card :: cardinality
  parent_key :: "'r \<Rightarrow> 'k"
  child_key :: "'r \<Rightarrow> 'k"

text \<open>
  Modelled from the spec: \<^verbatim>\<open>RelationSpec\<close> = name + optional filter + ordered sequence of
  child \<^verbatim>\<open>RelationSpec\<close> (section 9). A request is a root entity type and a list of them.
\<close>

datatype 'f RelationSpec =
  RelationSpec (rs_name: string) (rs_filter: "'f option") (rs_children: "'f RelationSpec list")

text \<open>
  Modelled from the spec: one batched query, a fetch from a table with an \<^verbatim>\<open>IN (...)\<close>
  predicate over a key list (step 2). A \<^verbatim>\<open>FetchPlan\<close> is a list of them.
\<close>

record ('f, 'k) query =
  q_table :: string
  q_filter :: "'f option"
  q_keys :: "'k list"

text \<open>
  Modelled from the spec: the failure of a fetch step (\<^verbatim>\<open>QueryError\<close>, section 7).
\<close>

datatype error = QueryError string

text \<open>
  Modelled from the spec: the collaborators of the resolver. \<^verbatim>\<open>schema_edge\<close> looks a
  relation name of an entity type up in the schema; \<^verbatim>\<open>run_query\<close> is the round trip of
  one batched query, which returns rows or fails. Where the backend limits the length of an
  \<^verbatim>\<open>IN\<close> list, the Backend Adapter sends the list in chunks (the chunk size is its
  property): that happens below \<^verbatim>\<open>run_query\<close>, which stands for the whole batched query.
\<close>

record ('r, 'k, 'f) backend =
  schema_edge :: "string \<Rightarrow> string \<Rightarrow> ('r, 'k) edge"
  run_query :: "('f, 'k) query \<Rightarrow> error + 'r list"

text \<open>
  Modelled from the spec: \<^verbatim>\<open>ResultNode\<close>, a record plus a mapping from relation name to a
  sequence of child nodes, or to a single optional child for a to-one relation (section 3).
  The mapping is an association list in the order of the request.
\<close>

datatype 'r ResultNode =
  ResultNode (node_record: 'r) (node_relations: "(string \<times> 'r RelValue) list")
and 'r RelValue = Many "'r ResultNode list" | One "'r ResultNode option"

text \<open>Modelled from the spec: step 1, the distinct key values of the parents of an edge.\<close>

definition collect_keys :: "('r, 'k) edge \<Rightarrow> 'r list \<Rightarrow> 'k list" where
  "collect_keys e parents = remdups (map (parent_key e) parents)"

text \<open>Modelled from the spec: step 2, the one batched query of an edge.\<close>

definition edge_query :: "('r, 'k) edge \<Rightarrow> 'f option \<Rightarrow> 'r list \<Rightarrow> ('f, 'k) query" where
  "edge_query e flt parents =
     \<lparr>q_table = edge_target e, q_filter = flt, q_keys = collect_keys e parents\<rparr>"

text \<open>
  Modelled from the spec: step 3, the partition of the child nodes that belongs to a
  parent: a sequence for a to-many edge, the first match or absence for a to-one edge.
\<close>

definition attach :: "('r, 'k) edge \<Rightarrow> 'r ResultNode list \<Rightarrow> 'r \<Rightarrow> 'r RelValue" where
  "attach e nodes p =
     (let mine = filter (\<lambda>n. child_key e (node_record n) = parent_key e p) nodes
      in case edge_card e of
           ManyToOne \<Rightarrow> One (case mine of [] \<Rightarrow> None | n # _ \<Rightarrow> Some n)
         | _ \<Rightarrow> Many mine)"

text \<open>
  Modelled from the spec: step 3, the nodes of one level: every parent record with one
  entry per requested edge.
\<close>

definition assemble ::
  "'r list \<Rightarrow> (string \<times> ('r \<Rightarrow> 'r RelValue)) list \<Rightarrow> 'r ResultNode list" where
  "assemble rows atts = map (\<lambda>p. ResultNode p (map (\<lambda>(nm, att). (nm, att p)) atts)) rows"

text \<open>
  Modelled from the spec: steps 1 to 4 for one edge and for the edges of one level. An edge
  issues its batched query, recurses into its children with the returned rows as the new
  parents (step 4), and yields its name with the attachment of the assembled child nodes to
  any parent. The first component is the queries issued so far, in order; a failed query
  fails the whole resolution at once (section 7), with no partial tree.
\<close>

fun resolve_edge ::
  "('r, 'k, 'f) backend \<Rightarrow> string \<Rightarrow> 'r list \<Rightarrow> 'f RelationSpec
     \<Rightarrow> ('f, 'k) query list \<times> (error + string \<times> ('r \<Rightarrow> 'r RelValue))"
and resolve_level ::
  "('r, 'k, 'f) backend \<Rightarrow> string \<Rightarrow> 'r list \<Rightarrow> 'f RelationSpec list
     \<Rightarrow> ('f, 'k) query list \<times> (error + (string \<times> ('r \<Rightarrow> 'r RelValue)) list)"
where
  "resolve_edge b ent parents (RelationSpec nm flt kids) =
     (let e = schema_edge b ent nm;
          q = edge_query e flt parents
      in case run_query b q of
           Inl x \<Rightarrow> ([q], Inl x)
         | Inr rows \<Rightarrow>
             (case resolve_level b (edge_target e) rows kids of
                (plan, Inl x) \<Rightarrow> (q # plan, Inl x)
              | (plan, Inr atts) \<Rightarrow> (q # plan, Inr (nm, attach e (assemble rows atts)))))"
| "resolve_level b ent parents [] = ([], Inr [])"
| "resolve_level b ent parents (s # ss) =
     (case resolve_edge b ent parents s of
        (plan1, Inl x) \<Rightarrow> (plan1, Inl x)
      | (plan1, Inr att) \<Rightarrow>
          (case resolve_level b ent parents ss of
             (plan2, Inl x) \<Rightarrow> (plan1 @ plan2, Inl x)
           | (plan2, Inr atts) \<Rightarrow> (plan1 @ plan2, Inr (att # atts))))"

text \<open>
  Modelled from the spec: a whole call: the root query, then the resolution of the
  requested relations on its rows. The result is the queries issued and the tree, or the
  error of the query that failed.
\<close>

definition fetch_with_relations ::
  "('r, 'k, 'f) backend \<Rightarrow> ('f, 'k) query \<Rightarrow> string \<Rightarrow> 'f RelationSpec list
     \<Rightarrow> ('f, 'k) query list \<times> (error + 'r ResultNode list)" where
  "fetch_with_relations b root ent specs =
     (case run_query b root of
        Inl x \<Rightarrow> ([root], Inl x)
      | Inr roots \<Rightarrow>
          (case resolve_level b ent roots specs of
             (plan, Inl x) \<Rightarrow> (root # plan, Inl x)
           | (plan, Inr atts) \<Rightarrow> (root # plan, Inr (assemble roots atts))))"

text \<open>Modelled from the spec: the number of relation edges of a requested tree.\<close>

fun edge_count :: "'f RelationSpec \<Rightarrow> nat" where
  "edge_count (RelationSpec nm flt kids) = Suc (sum_list (map edge_count kids))"

text \<open>
  Modelled from the spec: the entry of a parent without children: "an empty sequence
  (to-many) or absent value (to-one)".
\<close>

definition empty_value :: "cardinality \<Rightarrow> 'r RelValue" where
  "empty_value c = (case c of ManyToOne \<Rightarrow> One None | _ \<Rightarrow> Many [])"

text \<open>
  Modelled from the spec: what step 3 asks of the node of a parent \<open>p\<close> at a level with
  parents \<open>parents\<close> and requested edges \<open>specs\<close>. The node has one entry per requested
  edge, in order and under the edge's name. For a to-many edge the entry is the sequence of
  nodes of exactly the rows of the edge's query whose foreign key is the key of \<open>p\<close>, in
  their order; for a to-one edge it is the node of the first such row, or absence when
  there is none. The child nodes satisfy the same, one level down.
\<close>

inductive resolved ::
    "('r, 'k, 'f) backend \<Rightarrow> string \<Rightarrow> 'r list \<Rightarrow> 'f RelationSpec list \<Rightarrow> 'r ResultNode \<Rightarrow> bool"
  and resolved_value ::
    "('r, 'k, 'f) backend \<Rightarrow> string \<Rightarrow> 'r list \<Rightarrow> 'f RelationSpec \<Rightarrow> 'r \<Rightarrow> 'r RelValue \<Rightarrow> bool"
where
  node: "length rels = length specs \<Longrightarrow>
         (\<forall>i<length specs. fst (rels ! i) = rs_name (specs ! i)
              \<and> resolved_value b ent parents (specs ! i) p (snd (rels ! i))) \<Longrightarrow>
         resolved b ent parents specs (ResultNode p rels)"
| many: "e = schema_edge b ent (rs_name s) \<Longrightarrow> edge_card e \<noteq> ManyToOne \<Longrightarrow>
         run_query b (edge_query e (rs_filter s) parents) = Inr rows \<Longrightarrow>
         map node_record ns = filter (\<lambda>r. child_key e r = parent_key e p) rows \<Longrightarrow>
         (\<forall>n\<in>set ns. resolved b (edge_target e) rows (rs_children s) n) \<Longrightarrow>
         resolved_value b ent parents s p (Many ns)"
| absent: "e = schema_edge b ent (rs_name s) \<Longrightarrow> edge_card e = ManyToOne \<Longrightarrow>
         run_query b (edge_query e (rs_filter s) parents) = Inr rows \<Longrightarrow>
         filter (\<lambda>r. child_key e r = parent_key e p) rows = [] \<Longrightarrow>
         resolved_value b ent parents s p (One None)"
| present: "e = schema_edge b ent (rs_name s) \<Longrightarrow> edge_card e = ManyToOne \<Longrightarrow>
         run_query b (edge_query e (rs_filter s) parents) = Inr rows \<Longrightarrow>
         filter (\<lambda>r. child_key e r = parent_key e p) rows = r # rest \<Longrightarrow>
         node_record n = r \<Longrightarrow>
         resolved b (edge_target e) rows (rs_children s) n \<Longrightarrow>
         resolved_value b ent parents s p (One (Some n))"

text \<open>
  Modelled from the spec: the place of a node in a tree \<open>t\<close> that stands at a level with
  entity type \<open>ent\<close>, parents \<open>parents\<close> and requested edges \<open>specs\<close>: the tree itself
  stands there, and a child under the \<open>i\<close>-th entry of a placed node stands one level
  down, where the entity type is the edge's target, the parents are the rows of the edge's
  query and the requested edges are the children of the \<open>i\<close>-th edge (step 4).
\<close>

inductive placed ::
  "('r, 'k, 'f) backend \<Rightarrow> string \<Rightarrow> 'r list \<Rightarrow> 'f RelationSpec list \<Rightarrow> 'r ResultNode
     \<Rightarrow> string \<Rightarrow> 'r list \<Rightarrow> 'f RelationSpec list \<Rightarrow> 'r ResultNode \<Rightarrow> bool"
  for b :: "('r, 'k, 'f) backend" and ent :: string and parents :: "'r list"
    and specs :: "'f RelationSpec list" and t :: "'r ResultNode"
where
  here: "placed b ent parents specs t ent parents specs t"
| in_many: "placed b ent parents specs t ent' ps ss (ResultNode r rels) \<Longrightarrow>
            i < length ss \<Longrightarrow> i < length rels \<Longrightarrow> snd (rels ! i) = Many ns \<Longrightarrow> n \<in> set ns \<Longrightarrow>
            e = schema_edge b ent' (rs_name (ss ! i)) \<Longrightarrow>
            run_query b (edge_query e (rs_filter (ss ! i)) ps) = Inr rows \<Longrightarrow>
            placed b ent parents specs t (edge_target e) rows (rs_children (ss ! i)) n"
| in_one: "placed b ent parents specs t ent' ps ss (ResultNode r rels) \<Longrightarrow>
            i < length ss \<Longrightarrow> i < length rels \<Longrightarrow> snd (rels ! i) = One (Some n) \<Longrightarrow>
            e = schema_edge b ent' (rs_name (ss ! i)) \<Longrightarrow>
            run_query b (edge_query e (rs_filter (ss ! i)) ps) = Inr rows \<Longrightarrow>
            placed b ent parents specs t (edge_target e) rows (rs_children (ss ! i)) n"

subsection \<open>A sample database\<close>

text \<open>
  The scenario of section 8 of the specification: one user, three posts of that user, two
  comments on the first post; and two drafts, the second by a user that does not exist.
  A row is its id and its foreign key. \<^verbatim>\<open>author\<close> is the to-one edge from a draft to its
  user; every other relation is the to-many edge to the table of the same name. Queries on
  the table \<^verbatim>\<open>audit\<close> fail.
\<close>

definition blog_tables :: "string \<Rightarrow> (nat \<times> nat) list" where
  "blog_tables t =
     (if t = ''users'' then [(5, 0)]
      else if t = ''posts'' then [(10, 5), (11, 5), (12, 5)]
      else if t = ''comments'' then [(100, 10), (101, 10)]
      else if t = ''drafts'' then [(20, 5), (21, 7)]
      else [])"

definition blog_edge :: "string \<Rightarrow> string \<Rightarrow> (nat \<times> nat, nat) edge" where
  "blog_edge ent nm =
     (if nm = ''author''
      then \<lparr>edge_target = ''users'', edge_card = ManyToOne, parent_key = snd, child_key = fst\<rparr>
      else \<lparr>edge_target = nm, edge_card = OneToMany, parent_key = fst, child_key = snd\<rparr>)"

definition blog_query :: "(unit, nat) query \<Rightarrow> error + (nat \<times> nat) list" where
  "blog_query q =
     (if q_table q = ''audit'' then Inl (QueryError ''permission denied'')
      else Inr (filter (\<lambda>r. (if q_table q = ''users'' then fst r else snd r) \<in> set (q_keys q))
                  (blog_tables (q_table q))))"

definition blog :: "(nat \<times> nat, nat, unit) backend" where
  "blog = \<lparr>schema_edge = blog_edge, run_query = blog_query\<rparr>"

definition user_5 :: "(unit, nat) query" where
  "user_5 = \<lparr>q_table = ''users'', q_filter = None, q_keys = [5]\<rparr>"

definition drafts_of_5_7 :: "(unit, nat) query" where
  "drafts_of_5_7 = \<lparr>q_table = ''drafts'', q_filter = None, q_keys = [5, 7]\<rparr>"

definition posts_comments :: "unit RelationSpec list" where
  "posts_comments = [RelationSpec ''posts'' None [RelationSpec ''comments'' None []]]"

section \<open>Properties of the installer\<close>

lemma truthy_platform_map:
  "truthy (map_of platform_map s) \<longleftrightarrow> s \<in> {''darwin'', ''linux'', ''windows''}"
  by (simp add: platform_map_def)

lemma truthy_arch_map:
  "truthy (map_of arch_map m) \<longleftrightarrow> m \<in> {''x86_64'', ''amd64'', ''arm64'', ''aarch64''}"
  by (simp add: arch_map_def)

lemma select_target_unsupported:
  assumes "s \<notin> {''darwin'', ''linux'', ''windows''} \<or> m \<notin> {''x86_64'', ''amd64'', ''arm64'', ''aarch64''}"
  shows "select_target s m = Inl (Exception (''Unsupported platform: '' @ s @ ''-'' @ m))"
  using assms truthy_platform_map [of s] truthy_arch_map [of m]
  unfolding select_target_def Let_def by auto

lemma select_target_supported:
  assumes "s \<in> {''darwin'', ''linux'', ''windows''}"
      and "m \<in> {''x86_64'', ''amd64'', ''arm64'', ''aarch64''}"
  shows "select_target s m =
     Inr \<lparr>mapped_platform = Some (if s = ''windows'' then ''win32'' else s),
          mapped_arch = Some (if m \<in> {''x86_64'', ''amd64''} then ''x64'' else ''arm64''),
          binary_name = (if s = ''windows'' then ''graft.exe'' else ''graft''),
          download_name = ''graft-'' @ (if s = ''windows'' then ''win32'' else s) @ ''-''
             @ (if m \<in> {''x86_64'', ''amd64''} then ''x64'' else ''arm64'')
             @ (if s = ''windows'' then ''.exe'' else ''''),
          url = ''https://github.com/Lumos-Labs-HQ/graft/releases/download/v1.0.0/graft-''
             @ (if s = ''windows'' then ''win32'' else s) @ ''-''
             @ (if m \<in> {''x86_64'', ''amd64''} then ''x64'' else ''arm64'')
             @ (if s = ''windows'' then ''.exe'' else '''')\<rparr>"
  using assms
  by (elim insertE emptyE; hypsubst;
      simp add: select_target_def platform_map_def arch_map_def REPO_def VERSION_def Let_def)

lemma install_target_retrieves:
  "Urlretrieve u p \<in> set (fst (install_target e s m t)) \<Longrightarrow>
     u = url t \<and> p = binary_path e (binary_name t)"
  by (auto simp: install_target_def Let_def split: option.splits sum.splits)

lemma install_target_reaches:
  "os_makedirs e (bin_dir e) = None \<Longrightarrow> print e (msg_installing s m) = None \<Longrightarrow>
   print e (msg_downloading (url t)) = None \<Longrightarrow>
     Urlretrieve (url t) (binary_path e (binary_name t)) \<in> set (fst (install_target e s m t))"
  by (auto simp: install_target_def Let_def split: option.splits sum.splits)


lemma lower_samples:
  "lower ''Java'' = ''java''" "lower ''AMD64'' = ''amd64''" "lower ''x86_64'' = ''x86_64''"
  "lower ''Windows'' = ''windows''" "lower ''Linux'' = ''linux''"
  by code_simp+

lemma sel_win: "select_target ''windows'' ''amd64'' =
   Inr \<lparr>mapped_platform = Some ''win32'', mapped_arch = Some ''x64'',
        binary_name = ''graft.exe'', download_name = ''graft-win32-x64.exe'',
        url = ''https://github.com/Lumos-Labs-HQ/graft/releases/download/v1.0.0/graft-win32-x64.exe''\<rparr>"
  by (simp add: select_target_def platform_map_def arch_map_def REPO_def VERSION_def Let_def)

lemma sel_linux_amd64: "select_target ''linux'' ''amd64'' =
   Inr \<lparr>mapped_platform = Some ''linux'', mapped_arch = Some ''x64'',
        binary_name = ''graft'', download_name = ''graft-linux-x64'',
        url = ''https://github.com/Lumos-Labs-HQ/graft/releases/download/v1.0.0/graft-linux-x64''\<rparr>"
  by (simp add: select_target_def platform_map_def arch_map_def REPO_def VERSION_def Let_def)

lemma quiet_binary_path: "binary_path (quiet_env s m) ''graft'' = ''/pkg/graft_orm/bin/graft''"
  by (simp add: binary_path_def bin_dir_def quiet_env_def posix_join_def)

text \<open>A complete run on the sample host: the seven calls, in order.\<close>

lemma download_binary_linux_run:
  "download_binary (quiet_env ''Linux'' ''aarch64'') =
     ([Makedirs ''/pkg/graft_orm/bin'',
       Print (msg_installing ''linux'' ''aarch64''),
       Print (msg_downloading
          ''https://github.com/Lumos-Labs-HQ/graft/releases/download/v1.0.0/graft-linux-arm64''),
       Urlretrieve
          ''https://github.com/Lumos-Labs-HQ/graft/releases/download/v1.0.0/graft-linux-arm64''
          ''/pkg/graft_orm/bin/graft'',
       Stat ''/pkg/graft_orm/bin/graft'',
       Chmod ''/pkg/graft_orm/bin/graft'' 484,
       Print msg_installed], Inr ())"
  by code_simp

text \<open>
  Claim C8. On a host whose lowercased system is not darwin, linux or windows, or whose
  lowercased machine is not x86_64, amd64, arm64 or aarch64, \<^verbatim>\<open>download_binary\<close> raises
  \<^verbatim>\<open>Exception\<close> with a message that starts with \<^verbatim>\<open>Unsupported platform: \<close>, and it
  has issued no call at all: no directory creation, no download, no chmod.
\<close>

theorem download_binary_unsupported:
  assumes "lower (platform_system e) \<notin> {''darwin'', ''linux'', ''windows''}
         \<or> lower (platform_machine e) \<notin> {''x86_64'', ''amd64'', ''arm64'', ''aarch64''}"
  shows "download_binary e =
           ([], Inl (Exception (''Unsupported platform: '' @ lower (platform_system e)
                                  @ ''-'' @ lower (platform_machine e))))"
  unfolding download_binary_def Let_def
  by (simp only: select_target_unsupported [OF assms] sum.case)

theorem download_binary_unsupported_witness:
  "lower (platform_system (quiet_env ''Java'' ''x86_64'')) \<notin> {''darwin'', ''linux'', ''windows''}
   \<and> download_binary (quiet_env ''Java'' ''x86_64'') =
         ([], Inl (Exception ''Unsupported platform: java-x86_64''))"
  using download_binary_unsupported [of "quiet_env ''Java'' ''x86_64''"]
  by (simp add: quiet_env_def lower_samples)

text \<open>
  Claim C9. On a supported host the download URL is
  \<^verbatim>\<open>https://github.com/Lumos-Labs-HQ/graft/releases/download/v1.0.0/graft-<platform>-<arch>\<close>,
  with \<^verbatim>\<open>.exe\<close> appended exactly when the system is windows; the local binary is
  \<^verbatim>\<open>graft.exe\<close> on windows and \<^verbatim>\<open>graft\<close> otherwise. The only download the run can
  issue is of that URL to that file, and it is issued once the directory creation and
  the two progress messages have returned.
\<close>

theorem download_binary_url:
  fixes e :: env and s m p a x :: string
  defines "p \<equiv> (if s = ''windows'' then ''win32'' else s)"
      and "a \<equiv> (if m \<in> {''x86_64'', ''amd64''} then ''x64'' else ''arm64'')"
      and "x \<equiv> (if s = ''windows'' then ''.exe'' else '''')"
  assumes sys: "lower (platform_system e) = s" and mach: "lower (platform_machine e) = m"
      and s: "s \<in> {''darwin'', ''linux'', ''windows''}"
      and m: "m \<in> {''x86_64'', ''amd64'', ''arm64'', ''aarch64''}"
  shows "\<exists>t. select_target s m = Inr t
           \<and> download_binary e = install_target e s m t
           \<and> url t = ''https://github.com/Lumos-Labs-HQ/graft/releases/download/v1.0.0/graft-''
                        @ p @ ''-'' @ a @ x
           \<and> download_name t = ''graft-'' @ p @ ''-'' @ a @ x
           \<and> binary_name t = (if s = ''windows'' then ''graft.exe'' else ''graft'')
           \<and> (\<forall>u f. Urlretrieve u f \<in> set (fst (download_binary e)) \<longrightarrow>
                  u = url t \<and> f = path_join e (bin_dir e) [binary_name t])
           \<and> (os_makedirs e (bin_dir e) = None \<and> print e (msg_installing s m) = None
                \<and> print e (msg_downloading (url t)) = None \<longrightarrow>
                  Urlretrieve (url t) (path_join e (bin_dir e) [binary_name t])
                    \<in> set (fst (download_binary e)))"
proof -
  from select_target_supported [OF s m] obtain t where
    t: "select_target s m = Inr t"
    and u: "url t = ''https://github.com/Lumos-Labs-HQ/graft/releases/download/v1.0.0/graft-''
                        @ p @ ''-'' @ a @ x"
    and d: "download_name t = ''graft-'' @ p @ ''-'' @ a @ x"
    and b: "binary_name t = (if s = ''windows'' then ''graft.exe'' else ''graft'')"
    unfolding p_def a_def x_def by simp
  have run: "download_binary e = install_target e s m t"
    by (simp add: download_binary_def sys mach t)
  have r1: "\<forall>u f. Urlretrieve u f \<in> set (fst (download_binary e)) \<longrightarrow>
                  u = url t \<and> f = path_join e (bin_dir e) [binary_name t]"
    unfolding run using install_target_retrieves [of _ _ e s m t]
    by (simp add: binary_path_def)
  have r2: "os_makedirs e (bin_dir e) = None \<and> print e (msg_installing s m) = None
                \<and> print e (msg_downloading (url t)) = None \<longrightarrow>
                  Urlretrieve (url t) (path_join e (bin_dir e) [binary_name t])
                    \<in> set (fst (download_binary e))"
    unfolding run using install_target_reaches [of e s m t]
    by (simp add: binary_path_def)
  from t run u d b r1 r2 show ?thesis by blast
qed

theorem download_binary_url_witness:
  "lower (platform_system (quiet_env ''Windows'' ''AMD64'')) = ''windows''
   \<and> lower (platform_machine (quiet_env ''Windows'' ''AMD64'')) = ''amd64''
   \<and> (\<exists>t. select_target ''windows'' ''amd64'' = Inr t
          \<and> url t = ''https://github.com/Lumos-Labs-HQ/graft/releases/download/v1.0.0/graft-win32-x64.exe''
          \<and> binary_name t = ''graft.exe''
          \<and> Urlretrieve (url t) ''/pkg/graft_orm/bin/graft.exe''
               \<in> set (fst (download_binary (quiet_env ''Windows'' ''AMD64''))))"
proof -
  let ?E = "quiet_env ''Windows'' ''AMD64''"
  have h1: "lower (platform_system ?E) = ''windows''"
    by (simp add: quiet_env_def lower_samples)
  have h2: "lower (platform_machine ?E) = ''amd64''"
    by (simp add: quiet_env_def lower_samples)
  have h3: "''windows'' \<in> {''darwin'', ''linux'', ''windows''}" by simp
  have h4: "''amd64'' \<in> {''x86_64'', ''amd64'', ''arm64'', ''aarch64''}" by simp
  have q1: "os_makedirs ?E x = None" for x by (simp add: quiet_env_def)
  have q2: "print ?E x = None" for x by (simp add: quiet_env_def)
  have q3: "path_join ?E (bin_dir ?E) [''graft.exe''] = ''/pkg/graft_orm/bin/graft.exe''"
    by (simp add: quiet_env_def bin_dir_def posix_join_def)
  from download_binary_url [OF h1 h2 h3 h4] obtain t where
    t: "select_target ''windows'' ''amd64'' = Inr t"
    and r: "os_makedirs ?E (bin_dir ?E) = None \<and> print ?E (msg_installing ''windows'' ''amd64'') = None
       \<and> print ?E (msg_downloading (url t)) = None \<longrightarrow>
     Urlretrieve (url t) (path_join ?E (bin_dir ?E) [binary_name t])
       \<in> set (fst (download_binary ?E))"
    by blast
  note teq = Inr_inject [OF t [unfolded sel_win], symmetric]
  have u: "url t = ''https://github.com/Lumos-Labs-HQ/graft/releases/download/v1.0.0/graft-win32-x64.exe''"
    and b: "binary_name t = ''graft.exe''"
    by (simp_all add: teq)
  from r have "Urlretrieve (url t) (path_join ?E (bin_dir ?E) [binary_name t])
       \<in> set (fst (download_binary ?E))"
    by (simp only: q1 q2 simp_thms)
  then have "Urlretrieve (url t) ''/pkg/graft_orm/bin/graft.exe'' \<in> set (fst (download_binary ?E))"
    by (simp only: b q3)
  with h1 h2 t u b show ?thesis by blast
qed

text \<open>
  Claim C10. Two hosts that differ only in the machine name, \<^verbatim>\<open>x86_64\<close> on one and
  \<^verbatim>\<open>amd64\<close> on the other, or \<^verbatim>\<open>arm64\<close> and \<^verbatim>\<open>aarch64\<close>, are served alike by
  \<^verbatim>\<open>download_binary\<close>. On a supported system both runs compute the same locals: the mapped
  architecture is \<^verbatim>\<open>x64\<close> for the first pair and \<^verbatim>\<open>arm64\<close> for the second, the URL
  is that of the asset of this architecture, and the binary path is the same; the only
  download either run can issue is of this URL to this path, and each issues it once its
  directory creation and progress messages have returned. On an unsupported system both
  runs raise before any call.
\<close>

theorem machine_aliases_equivalent:
  fixes e e' :: env and s m m' a :: string
  defines "s \<equiv> lower (platform_system e)"
      and "m \<equiv> lower (platform_machine e)"
      and "m' \<equiv> lower (platform_machine e')"
      and "a \<equiv> (if lower (platform_machine e) = ''x86_64'' then ''x64'' else ''arm64'')"
  assumes host: "platform_system e' = platform_system e" "file_dir e' = file_dir e"
                "path_join e' = path_join e"
      and pair: "(m, m') \<in> {(''x86_64'', ''amd64''), (''arm64'', ''aarch64'')}"
  shows "(s \<in> {''darwin'', ''linux'', ''windows''} \<longrightarrow>
           (\<exists>t. select_target s m = Inr t \<and> select_target s m' = Inr t
              \<and> mapped_arch t = Some a
              \<and> url t = ''https://github.com/Lumos-Labs-HQ/graft/releases/download/v1.0.0/graft-''
                           @ (if s = ''windows'' then ''win32'' else s) @ ''-'' @ a
                           @ (if s = ''windows'' then ''.exe'' else '''')
              \<and> download_binary e = install_target e s m t
              \<and> download_binary e' = install_target e' s m' t
              \<and> binary_path e' (binary_name t) = binary_path e (binary_name t)
              \<and> (\<forall>u f. Urlretrieve u f \<in> set (fst (download_binary e))
                                          \<union> set (fst (download_binary e')) \<longrightarrow>
                     u = url t \<and> f = binary_path e (binary_name t))
              \<and> (os_makedirs e (bin_dir e) = None \<and> print e (msg_installing s m) = None
                    \<and> print e (msg_downloading (url t)) = None \<longrightarrow>
                  Urlretrieve (url t) (binary_path e (binary_name t))
                    \<in> set (fst (download_binary e)))
              \<and> (os_makedirs e' (bin_dir e') = None \<and> print e' (msg_installing s m') = None
                    \<and> print e' (msg_downloading (url t)) = None \<longrightarrow>
                  Urlretrieve (url t) (binary_path e (binary_name t))
                    \<in> set (fst (download_binary e')))))
       \<and> (s \<notin> {''darwin'', ''linux'', ''windows''} \<longrightarrow>
            download_binary e = ([], Inl (Exception (''Unsupported platform: '' @ s @ ''-'' @ m)))
          \<and> download_binary e' = ([], Inl (Exception (''Unsupported platform: '' @ s @ ''-'' @ m'))))"
proof (intro conjI impI)
  assume sup: "s \<in> {''darwin'', ''linux'', ''windows''}"
  from pair have mm: "m \<in> {''x86_64'', ''amd64'', ''arm64'', ''aarch64''}"
    and mm': "m' \<in> {''x86_64'', ''amd64'', ''arm64'', ''aarch64''}" by auto
  from pair have am: "(if m \<in> {''x86_64'', ''amd64''} then ''x64'' else ''arm64'') = a"
    and am': "(if m' \<in> {''x86_64'', ''amd64''} then ''x64'' else ''arm64'') = a"
    unfolding a_def m_def [symmetric] by auto
  define t where "t = \<lparr>mapped_platform = Some (if s = ''windows'' then ''win32'' else s),
          mapped_arch = Some a,
          binary_name = (if s = ''windows'' then ''graft.exe'' else ''graft''),
          download_name = ''graft-'' @ (if s = ''windows'' then ''win32'' else s) @ ''-'' @ a
             @ (if s = ''windows'' then ''.exe'' else ''''),
          url = ''https://github.com/Lumos-Labs-HQ/graft/releases/download/v1.0.0/graft-''
             @ (if s = ''windows'' then ''win32'' else s) @ ''-'' @ a
             @ (if s = ''windows'' then ''.exe'' else '''')\<rparr>"
  have t1: "select_target s m = Inr t"
    unfolding t_def am [symmetric] by (rule select_target_supported [OF sup mm])
  have t2: "select_target s m' = Inr t"
    unfolding t_def am' [symmetric] by (rule select_target_supported [OF sup mm'])
  have s': "lower (platform_system e') = s" by (simp add: s_def host)
  have r1: "download_binary e = install_target e s m t"
    using t1 by (simp add: download_binary_def s_def m_def)
  have r2: "download_binary e' = install_target e' s m' t"
    using t2 by (simp add: download_binary_def s' m'_def)
  have bd: "bin_dir e' = bin_dir e" by (simp add: bin_dir_def host)
  have bp: "binary_path e' (binary_name t) = binary_path e (binary_name t)"
    by (simp add: binary_path_def bd host)
  have only: "\<forall>u f. Urlretrieve u f \<in> set (fst (download_binary e))
                                          \<union> set (fst (download_binary e')) \<longrightarrow>
                     u = url t \<and> f = binary_path e (binary_name t)"
    unfolding r1 r2
    using install_target_retrieves [of _ _ e s m t] install_target_retrieves [of _ _ e' s m' t]
    by (auto simp: bp)
  have reach1: "os_makedirs e (bin_dir e) = None \<and> print e (msg_installing s m) = None
                    \<and> print e (msg_downloading (url t)) = None \<longrightarrow>
                  Urlretrieve (url t) (binary_path e (binary_name t))
                    \<in> set (fst (download_binary e))"
    unfolding r1 using install_target_reaches [of e s m t] by blast
  have reach2: "os_makedirs e' (bin_dir e') = None \<and> print e' (msg_installing s m') = None
                    \<and> print e' (msg_downloading (url t)) = None \<longrightarrow>
                  Urlretrieve (url t) (binary_path e (binary_name t))
                    \<in> set (fst (download_binary e'))"
    unfolding r2 using install_target_reaches [of e' s m' t] by (simp add: bp)
  have ma: "mapped_arch t = Some a" by (simp add: t_def)
  have ut: "url t = ''https://github.com/Lumos-Labs-HQ/graft/releases/download/v1.0.0/graft-''
                           @ (if s = ''windows'' then ''win32'' else s) @ ''-'' @ a
                           @ (if s = ''windows'' then ''.exe'' else '''')"
    by (simp add: t_def)
  from t1 t2 ma ut r1 r2 bp only reach1 reach2
  show "\<exists>t. select_target s m = Inr t \<and> select_target s m' = Inr t
              \<and> mapped_arch t = Some a
              \<and> url t = ''https://github.com/Lumos-Labs-HQ/graft/releases/download/v1.0.0/graft-''
                           @ (if s = ''windows'' then ''win32'' else s) @ ''-'' @ a
                           @ (if s = ''windows'' then ''.exe'' else '''')
              \<and> download_binary e = install_target e s m t
              \<and> download_binary e' = install_target e' s m' t
              \<and> binary_path e' (binary_name t) = binary_path e (binary_name t)
              \<and> (\<forall>u f. Urlretrieve u f \<in> set (fst (download_binary e))
                                          \<union> set (fst (download_binary e')) \<longrightarrow>
                     u = url t \<and> f = binary_path e (binary_name t))
              \<and> (os_makedirs e (bin_dir e) = None \<and> print e (msg_installing s m) = None
                    \<and> print e (msg_downloading (url t)) = None \<longrightarrow>
                  Urlretrieve (url t) (binary_path e (binary_name t))
                    \<in> set (fst (download_binary e)))
              \<and> (os_makedirs e' (bin_dir e') = None \<and> print e' (msg_installing s m') = None
                    \<and> print e' (msg_downloading (url t)) = None \<longrightarrow>
                  Urlretrieve (url t) (binary_path e (binary_name t))
                    \<in> set (fst (download_binary e')))"
    by (intro exI [of _ t] conjI)
next
  assume un: "s \<notin> {''darwin'', ''linux'', ''windows''}"
  have s': "lower (platform_system e') = s" by (simp add: s_def host)
  show "download_binary e = ([], Inl (Exception (''Unsupported platform: '' @ s @ ''-'' @ m)))"
    using un select_target_unsupported [of s m]
    by (simp add: download_binary_def s_def [symmetric] m_def [symmetric])
  show "download_binary e' = ([], Inl (Exception (''Unsupported platform: '' @ s @ ''-'' @ m')))"
    using un select_target_unsupported [of s m']
    by (simp add: download_binary_def s' m'_def [symmetric])
qed


theorem machine_aliases_equivalent_witness:
  "Urlretrieve ''https://github.com/Lumos-Labs-HQ/graft/releases/download/v1.0.0/graft-linux-x64''
       ''/pkg/graft_orm/bin/graft'' \<in> set (fst (download_binary (quiet_env ''Linux'' ''x86_64'')))
   \<and> Urlretrieve ''https://github.com/Lumos-Labs-HQ/graft/releases/download/v1.0.0/graft-linux-x64''
       ''/pkg/graft_orm/bin/graft'' \<in> set (fst (download_binary (quiet_env ''Linux'' ''AMD64'')))"
proof -
  let ?E = "quiet_env ''Linux'' ''x86_64''"
  let ?E' = "quiet_env ''Linux'' ''AMD64''"
  have h1: "platform_system ?E' = platform_system ?E" by (simp add: quiet_env_def)
  have h2: "file_dir ?E' = file_dir ?E" by (simp add: quiet_env_def)
  have h3: "path_join ?E' = path_join ?E" by (simp add: quiet_env_def)
  have ls: "lower (platform_system ?E) = ''linux''"
    and lm: "lower (platform_machine ?E) = ''x86_64''"
    and lm': "lower (platform_machine ?E') = ''amd64''"
    by (simp_all add: quiet_env_def lower_samples)
  have h4: "(lower (platform_machine ?E), lower (platform_machine ?E'))
              \<in> {(''x86_64'', ''amd64''), (''arm64'', ''aarch64'')}"
    by (simp add: lm lm')
  have q: "os_makedirs ?E x = None" "print ?E x = None"
          "os_makedirs ?E' x = None" "print ?E' x = None" for x
    by (simp_all add: quiet_env_def)
  have sup: "''linux'' \<in> {''darwin'', ''linux'', ''windows''}" by simp
  from machine_aliases_equivalent [OF h1 h2 h3 h4, unfolded ls lm lm', THEN conjunct1, THEN mp, OF sup]
  obtain t where
    u0: "url t = ''https://github.com/Lumos-Labs-HQ/graft/releases/download/v1.0.0/graft-''
                  @ (if ''linux'' = ''windows'' then ''win32'' else ''linux'') @ ''-''
                  @ (if ''x86_64'' = ''x86_64'' then ''x64'' else ''arm64'')
                  @ (if ''linux'' = ''windows'' then ''.exe'' else [])"
    and st: "select_target ''linux'' ''amd64'' = Inr t"
    and r1: "os_makedirs ?E (bin_dir ?E) = None \<and> print ?E (msg_installing ''linux'' ''x86_64'') = None
               \<and> print ?E (msg_downloading (url t)) = None \<longrightarrow>
             Urlretrieve (url t) (binary_path ?E (binary_name t)) \<in> set (fst (download_binary ?E))"
    and r2: "os_makedirs ?E' (bin_dir ?E') = None \<and> print ?E' (msg_installing ''linux'' ''amd64'') = None
               \<and> print ?E' (msg_downloading (url t)) = None \<longrightarrow>
             Urlretrieve (url t) (binary_path ?E (binary_name t)) \<in> set (fst (download_binary ?E'))"
    by blast
  have u: "url t = ''https://github.com/Lumos-Labs-HQ/graft/releases/download/v1.0.0/graft-linux-x64''"
    unfolding u0 by simp
  note teq = Inr_inject [OF st [unfolded sel_linux_amd64], symmetric]
  have b: "binary_path ?E (binary_name t) = ''/pkg/graft_orm/bin/graft''"
    by (simp add: teq quiet_binary_path)
  from r1 have a1: "Urlretrieve (url t) (binary_path ?E (binary_name t)) \<in> set (fst (download_binary ?E))"
    by (simp only: q simp_thms)
  from r2 have a2: "Urlretrieve (url t) (binary_path ?E (binary_name t)) \<in> set (fst (download_binary ?E'))"
    by (simp only: q simp_thms)
  from a1 a2 show ?thesis by (simp only: u b simp_thms)
qed

section \<open>Properties of the Relation Resolver\<close>

lemma assemble_records: "map node_record (assemble rows atts) = rows"
  by (simp add: assemble_def comp_def)

lemma assemble_nth:
  "j < length rows \<Longrightarrow>
     assemble rows atts ! j = ResultNode (rows ! j) (map (\<lambda>(nm, att). (nm, att (rows ! j))) atts)"
  by (simp add: assemble_def)

lemma assemble_resolved:
  assumes len: "length atts = length specs"
      and ok: "\<forall>i<length specs. fst (atts ! i) = rs_name (specs ! i)
                 \<and> (\<forall>p. resolved_value b ent parents (specs ! i) p (snd (atts ! i) p))"
  shows "\<forall>n\<in>set (assemble rows atts). resolved b ent parents specs n"
proof
  fix n assume "n \<in> set (assemble rows atts)"
  then obtain p where n: "n = ResultNode p (map (\<lambda>(nm, att). (nm, att p)) atts)"
    by (auto simp: assemble_def)
  show "resolved b ent parents specs n"
    unfolding n
  proof (rule resolved_resolved_value.node)
    show "length (map (\<lambda>(nm, att). (nm, att p)) atts) = length specs"
      by (simp add: len)
    show "\<forall>i<length specs. fst (map (\<lambda>(nm, att). (nm, att p)) atts ! i) = rs_name (specs ! i)
             \<and> resolved_value b ent parents (specs ! i) p
                  (snd (map (\<lambda>(nm, att). (nm, att p)) atts ! i))"
      using ok len by (simp add: split_def)
  qed
qed

lemma filter_records:
  "map node_record (filter (\<lambda>n. P (node_record n)) nodes) = filter P (map node_record nodes)"
  by (induction nodes) simp_all

lemma attach_resolved:
  assumes e: "e = schema_edge b ent (rs_name s)"
      and rows: "run_query b (edge_query e (rs_filter s) parents) = Inr rows"
      and recs: "map node_record nodes = rows"
      and kids: "\<forall>n\<in>set nodes. resolved b (edge_target e) rows (rs_children s) n"
  shows "resolved_value b ent parents s p (attach e nodes p)"
proof -
  let ?P = "\<lambda>r. child_key e r = parent_key e p"
  let ?mine = "filter (\<lambda>n. ?P (node_record n)) nodes"
  have mrec: "map node_record ?mine = filter ?P rows"
    using filter_records [of ?P nodes] by (simp add: recs)
  have mine: "\<forall>n\<in>set ?mine. resolved b (edge_target e) rows (rs_children s) n"
    using kids by simp
  show ?thesis
  proof (cases "edge_card e = ManyToOne")
    case True
    show ?thesis
    proof (cases ?mine)
      case Nil
      with mrec have "filter ?P rows = []" by simp
      with e True rows have "resolved_value b ent parents s p (One None)"
        by (rule resolved_resolved_value.absent)
      with True Nil show ?thesis by (simp add: attach_def)
    next
      case (Cons n ns)
      with mrec have f: "filter ?P rows = node_record n # map node_record ns" by simp
      from Cons mine have "resolved b (edge_target e) rows (rs_children s) n"
        by (metis list.set_intros(1))
      with e True rows f have "resolved_value b ent parents s p (One (Some n))"
        by (intro resolved_resolved_value.present [where r = "node_record n"]) simp_all
      with True Cons show ?thesis by (simp add: attach_def)
    qed
  next
    case False
    with e rows mrec mine have "resolved_value b ent parents s p (Many ?mine)"
      by (intro resolved_resolved_value.many)
    with False show ?thesis
      by (cases "edge_card e") (simp_all add: attach_def)
  qed
qed

lemma resolved_value_empty:
  assumes v: "resolved_value b ent parents s p v"
      and rows: "run_query b (edge_query (schema_edge b ent (rs_name s)) (rs_filter s) parents)
                   = Inr rows"
      and none: "\<forall>r\<in>set rows. child_key (schema_edge b ent (rs_name s)) r
                                 \<noteq> parent_key (schema_edge b ent (rs_name s)) p"
  shows "v = empty_value (edge_card (schema_edge b ent (rs_name s)))"
proof -
  let ?e = "schema_edge b ent (rs_name s)"
  from none have f: "filter (\<lambda>r. child_key ?e r = parent_key ?e p) rows = []"
    by (simp add: filter_empty_conv)
  from v show ?thesis
  proof (cases rule: resolved_value.cases)
    case (many e rows' ns)
    with rows f have "ns = []" by simp
    with many show ?thesis
      by (cases "edge_card ?e") (simp_all add: empty_value_def)
  next
    case (absent e rows')
    then show ?thesis by (simp add: empty_value_def)
  next
    case (present e rows' r rest n)
    with rows f show ?thesis by simp
  qed
qed

lemma resolve_success:
  fixes b :: "('r, 'k, 'f) backend"
  shows "resolve_edge b ent ps s = (plan, Inr a) \<Longrightarrow>
           length plan = edge_count s \<and> fst a = rs_name s
           \<and> (\<forall>p. resolved_value b ent ps s p (snd a p))"
    and "resolve_level b ent ps ss = (plan, Inr atts) \<Longrightarrow>
           length plan = sum_list (map edge_count ss) \<and> length atts = length ss
           \<and> (\<forall>i<length ss. fst (atts ! i) = rs_name (ss ! i)
                 \<and> (\<forall>p. resolved_value b ent ps (ss ! i) p (snd (atts ! i) p)))"
proof (induction b ent ps s and b ent ps ss arbitrary: plan a and plan atts
       rule: resolve_edge_resolve_level.induct)
  case (1 b ent parents nm flt kids)
  let ?s = "RelationSpec nm flt kids"
  let ?e = "schema_edge b ent nm"
  let ?q = "edge_query ?e flt parents"
  from "1.prems" obtain rows plan' atts where
    rq: "run_query b ?q = Inr rows"
    and rl: "resolve_level b (edge_target ?e) rows kids = (plan', Inr atts)"
    and pl: "plan = ?q # plan'"
    and a: "a = (nm, attach ?e (assemble rows atts))"
    by (auto simp: Let_def split: sum.splits prod.splits)
  note ih = "1.IH" [OF refl refl rq rl]
  from ih have kidsok: "\<forall>n\<in>set (assemble rows atts). resolved b (edge_target ?e) rows kids n"
    by (intro assemble_resolved) simp_all
  have "resolved_value b ent parents ?s p (attach ?e (assemble rows atts) p)" for p
    by (rule attach_resolved [where rows = rows])
       (use rq kidsok in \<open>simp_all add: assemble_records\<close>)
  with ih show ?case by (simp add: pl a)
next
  case (2 b ent parents)
  then show ?case by simp
next
  case (3 b ent parents s ss)
  from "3.prems" obtain plan1 att plan2 atts' where
    r1: "resolve_edge b ent parents s = (plan1, Inr att)"
    and r2: "resolve_level b ent parents ss = (plan2, Inr atts')"
    and pl: "plan = plan1 @ plan2" and at: "atts = att # atts'"
    by (auto split: sum.splits prod.splits)
  note h = "3.IH"(1) [OF r1]
  note t = "3.IH"(2) [OF r1 [symmetric] refl r2]
  show ?case
    unfolding pl at using h t by (auto simp: nth_Cons split: nat.split)
qed


lemma resolve_returns:
  fixes b :: "('r, 'k, 'f) backend"
  assumes ok: "\<forall>q. \<exists>rows. run_query b q = Inr rows"
  shows "\<exists>a. snd (resolve_edge b ent ps s) = Inr a"
    and "\<exists>atts. snd (resolve_level b ent ps ss) = Inr atts"
  using ok
proof (induction b ent ps s and b ent ps ss rule: resolve_edge_resolve_level.induct)
  case (1 b ent parents nm flt kids)
  let ?e = "schema_edge b ent nm"
  let ?q = "edge_query ?e flt parents"
  from "1.prems" obtain rows where rq: "run_query b ?q = Inr rows" by blast
  from "1.IH" [OF refl refl rq "1.prems"] obtain plan' atts where
    "resolve_level b (edge_target ?e) rows kids = (plan', Inr atts)"
    by (metis prod.collapse)
  then show ?case by (simp add: Let_def rq)
next
  case (2 b ent parents)
  show ?case by simp
next
  case (3 b ent parents s ss)
  from "3.IH"(1) [OF "3.prems"] obtain plan1 att where
    r1: "resolve_edge b ent parents s = (plan1, Inr att)" by (metis prod.collapse)
  from "3.IH"(2) [OF r1 [symmetric] refl "3.prems"] obtain plan2 atts where
    "resolve_level b ent parents ss = (plan2, Inr atts)" by (metis prod.collapse)
  then show ?case by (simp add: r1)
qed

lemma resolved_nth:
  assumes "resolved b ent ps ss (ResultNode r rels)" and "i < length ss"
  shows "resolved_value b ent ps (ss ! i) r (snd (rels ! i))"
  using assms by (auto elim: resolved.cases)

lemma placed_resolved:
  assumes "placed b ent parents specs t ent' ps ss n"
      and "resolved b ent parents specs t" and "node_record t \<in> set parents"
  shows "resolved b ent' ps ss n \<and> node_record n \<in> set ps"
  using assms
proof (induction rule: placed.induct)
  case here
  then show ?case by simp
next
  case (in_many ent' ps ss r rels i ns n e rows)
  then have "resolved b ent' ps ss (ResultNode r rels)" by simp
  from resolved_nth [OF this in_many(2)] in_many(4)
  have "resolved_value b ent' ps (ss ! i) r (Many ns)" by simp
  then show ?case
  proof (cases rule: resolved_value.cases)
    case (many e0 rows0)
    with in_many(6,7) have eq: "e0 = e" "rows0 = rows" by simp_all
    from many(5) in_many(5) have res: "resolved b (edge_target e) rows (rs_children (ss ! i)) n"
      by (simp add: eq)
    from in_many(5) have "node_record n \<in> set (map node_record ns)" by simp
    with many(4) have "node_record n \<in> set rows" by (simp add: eq)
    with res show ?thesis by simp
  qed
next
  case (in_one ent' ps ss r rels i n e rows)
  then have "resolved b ent' ps ss (ResultNode r rels)" by simp
  from resolved_nth [OF this in_one(2)] in_one(4)
  have "resolved_value b ent' ps (ss ! i) r (One (Some n))" by simp
  then show ?case
  proof (cases rule: resolved_value.cases)
    case (present e0 rows0 r0 rest)
    with in_one(5,6) have eq: "e0 = e" "rows0 = rows" by simp_all
    from present(4) have "r0 \<in> set (filter (\<lambda>x. child_key e0 x = parent_key e0 r) rows0)"
      by simp
    then have "r0 \<in> set rows" by (simp add: eq)
    with present(5,6) show ?thesis by (simp add: eq)
  qed
qed

lemma resolved_empty_entry:
  assumes n: "resolved b ent ps ss n" and i: "i < length ss"
      and rows: "run_query b (edge_query (schema_edge b ent (rs_name (ss ! i)))
                                (rs_filter (ss ! i)) ps) = Inr rows"
      and none: "\<forall>r\<in>set rows. child_key (schema_edge b ent (rs_name (ss ! i))) r
                    \<noteq> parent_key (schema_edge b ent (rs_name (ss ! i))) (node_record n)"
  shows "node_relations n ! i
           = (rs_name (ss ! i), empty_value (edge_card (schema_edge b ent (rs_name (ss ! i)))))"
proof -
  from n obtain p rels where nd: "n = ResultNode p rels"
    and nm: "fst (rels ! i) = rs_name (ss ! i)"
    and v: "resolved_value b ent ps (ss ! i) p (snd (rels ! i))"
    using i by (auto elim!: resolved.cases)
  from v rows none have "snd (rels ! i)
      = empty_value (edge_card (schema_edge b ent (rs_name (ss ! i))))"
    by (intro resolved_value_empty [where rows = rows]) (simp_all add: nd)
  with nm show ?thesis by (simp add: nd prod_eq_iff)
qed

lemma resolved_keys:
  assumes "resolved b ent ps ss n"
  shows "map fst (node_relations n) = map rs_name ss"
proof -
  from assms obtain p rels where nd: "n = ResultNode p rels"
    and len: "length rels = length ss"
    and nm: "\<forall>i<length ss. fst (rels ! i) = rs_name (ss ! i)"
    by (auto elim!: resolved.cases)
  show ?thesis unfolding nd using len nm by (simp add: list_eq_iff_nth_eq)
qed

lemma fetch_success:
  fixes b :: "('r, 'k, 'f) backend"
  assumes "fetch_with_relations b root ent specs = (plan, Inr nodes)"
  shows "\<exists>roots. run_query b root = Inr roots \<and> map node_record nodes = roots
           \<and> (\<forall>n\<in>set nodes. resolved b ent roots specs n)
           \<and> length plan = 1 + sum_list (map edge_count specs)"
proof -
  from assms obtain roots plan' atts where
    rq: "run_query b root = Inr roots"
    and rl: "resolve_level b ent roots specs = (plan', Inr atts)"
    and pl: "plan = root # plan'" and nd: "nodes = assemble roots atts"
    by (auto simp: fetch_with_relations_def split: sum.splits prod.splits)
  note s = resolve_success(2) [OF rl]
  from s have "\<forall>n\<in>set (assemble roots atts). resolved b ent roots specs n"
    by (intro assemble_resolved) simp_all
  with rq s show ?thesis by (simp add: pl nd assemble_records)
qed


lemma fetch_returns:
  fixes b :: "('r, 'k, 'f) backend"
  assumes ok: "\<forall>q. \<exists>rows. run_query b q = Inr rows"
  shows "\<exists>nodes. snd (fetch_with_relations b root ent specs) = Inr nodes"
proof -
  from ok obtain roots where rq: "run_query b root = Inr roots" by blast
  from resolve_returns(2) [OF ok, of ent roots specs] obtain plan atts where
    "resolve_level b ent roots specs = (plan, Inr atts)" by (metis prod.collapse)
  then show ?thesis by (simp add: fetch_with_relations_def rq)
qed

lemma blog_run:
  "fetch_with_relations blog user_5 ''users'' posts_comments =
    ([\<lparr>q_table = ''users'', q_filter = None, q_keys = [5]\<rparr>,
      \<lparr>q_table = ''posts'', q_filter = None, q_keys = [5]\<rparr>,
      \<lparr>q_table = ''comments'', q_filter = None, q_keys = [10, 11, 12]\<rparr>],
     Inr [ResultNode (5, 0)
       [(''posts'', Many
          [ResultNode (10, 5) [(''comments'', Many [ResultNode (100, 10) [], ResultNode (101, 10) []])],
           ResultNode (11, 5) [(''comments'', Many [])],
           ResultNode (12, 5) [(''comments'', Many [])]])]])"
  by code_simp

lemma blog_run_no_user:
  "fetch_with_relations blog \<lparr>q_table = ''users'', q_filter = None, q_keys = [99]\<rparr>
       ''users'' posts_comments =
    ([\<lparr>q_table = ''users'', q_filter = None, q_keys = [99]\<rparr>,
      \<lparr>q_table = ''posts'', q_filter = None, q_keys = []\<rparr>,
      \<lparr>q_table = ''comments'', q_filter = None, q_keys = []\<rparr>],
     Inr [])"
  by code_simp

lemma blog_run_failing:
  "fetch_with_relations blog user_5 ''users''
       [RelationSpec ''posts'' None [RelationSpec ''audit'' None [], RelationSpec ''comments'' None []]] =
    ([\<lparr>q_table = ''users'', q_filter = None, q_keys = [5]\<rparr>,
      \<lparr>q_table = ''posts'', q_filter = None, q_keys = [5]\<rparr>,
      \<lparr>q_table = ''audit'', q_filter = None, q_keys = [10, 11, 12]\<rparr>],
     Inl (QueryError ''permission denied''))"
  by code_simp

lemma blog_run_drafts:
  "fetch_with_relations blog drafts_of_5_7 ''drafts''
       [RelationSpec ''author'' None [], RelationSpec ''comments'' None []] =
    ([\<lparr>q_table = ''drafts'', q_filter = None, q_keys = [5, 7]\<rparr>,
      \<lparr>q_table = ''users'', q_filter = None, q_keys = [5, 7]\<rparr>,
      \<lparr>q_table = ''comments'', q_filter = None, q_keys = [20, 21]\<rparr>],
     Inr [ResultNode (20, 5) [(''author'', One (Some (ResultNode (5, 0) []))), (''comments'', Many [])],
          ResultNode (21, 7) [(''author'', One None), (''comments'', Many [])]])"
  by code_simp

lemma blog_rows:
  "run_query blog user_5 = Inr [(5, 0)]"
  "run_query blog (edge_query (schema_edge blog ''users'' ''posts'') None [(5, 0)])
     = Inr [(10, 5), (11, 5), (12, 5)]"
  "run_query blog (edge_query (schema_edge blog ''posts'' ''comments'') None
       [(10, 5), (11, 5), (12, 5)]) = Inr [(100, 10), (101, 10)]"
  "run_query blog drafts_of_5_7 = Inr [(20, 5), (21, 7)]"
  "run_query blog (edge_query (schema_edge blog ''drafts'' ''author'') None [(20, 5), (21, 7)])
     = Inr [(5, 0)]"
  by code_simp+

lemma blog_rows_edge:
  "run_query blog (edge_query
       \<lparr>edge_target = ''comments'', edge_card = OneToMany, parent_key = fst, child_key = snd\<rparr>
       None [(10, 5), (11, 5), (12, 5)]) = Inr [(100, 10), (101, 10)]"
  "run_query blog (edge_query
       \<lparr>edge_target = ''users'', edge_card = ManyToOne, parent_key = snd, child_key = fst\<rparr>
       None [(20, 5), (21, 7)]) = Inr [(5, 0)]"
  by code_simp+

lemma blog_edges:
  "schema_edge blog ent ''posts''
     = \<lparr>edge_target = ''posts'', edge_card = OneToMany, parent_key = fst, child_key = snd\<rparr>"
  "schema_edge blog ent ''comments''
     = \<lparr>edge_target = ''comments'', edge_card = OneToMany, parent_key = fst, child_key = snd\<rparr>"
  "schema_edge blog ent ''author''
     = \<lparr>edge_target = ''users'', edge_card = ManyToOne, parent_key = snd, child_key = fst\<rparr>"
  by (simp_all add: blog_def blog_edge_def)



text \<open>
  Claim C5. When a call returns, its nodes are the nodes of the rows of the root query,
  none dropped, and every node of the tree, at every depth, is a parent of its level and
  the node step 3 asks for there. Such a node has an entry for every requested relation,
  under its name; and for an edge none of whose fetched rows matches the node's record, the
  entry is the empty sequence (to-many) or the absent value (to-one). A call on a backend
  whose queries all return does return.
\<close>

theorem empty_relations_present:
  fixes b :: "('r, 'k, 'f) backend"
  shows "(\<forall>nodes. snd (fetch_with_relations b root ent specs) = Inr nodes \<longrightarrow>
            (\<exists>roots. run_query b root = Inr roots \<and> map node_record nodes = roots
               \<and> (\<forall>t\<in>set nodes. \<forall>ent' ps ss n.
                     placed b ent roots specs t ent' ps ss n \<longrightarrow>
                     resolved b ent' ps ss n \<and> node_record n \<in> set ps)))
       \<and> (\<forall>ent' ps ss n. resolved b ent' ps ss n \<longrightarrow>
             map fst (node_relations n) = map rs_name ss
           \<and> (\<forall>i<length ss. \<forall>rows.
                 run_query b (edge_query (schema_edge b ent' (rs_name (ss ! i)))
                                (rs_filter (ss ! i)) ps) = Inr rows
               \<and> (\<forall>r\<in>set rows. child_key (schema_edge b ent' (rs_name (ss ! i))) r
                      \<noteq> parent_key (schema_edge b ent' (rs_name (ss ! i))) (node_record n)) \<longrightarrow>
                 node_relations n ! i
                   = (rs_name (ss ! i),
                      empty_value (edge_card (schema_edge b ent' (rs_name (ss ! i)))))))
       \<and> ((\<forall>q. \<exists>rows. run_query b q = Inr rows) \<longrightarrow>
            (\<exists>nodes. snd (fetch_with_relations b root ent specs) = Inr nodes))"
proof (intro conjI allI impI)
  fix nodes assume "snd (fetch_with_relations b root ent specs) = Inr nodes"
  then have "fetch_with_relations b root ent specs
               = (fst (fetch_with_relations b root ent specs), Inr nodes)"
    by (simp add: prod_eq_iff)
  from fetch_success [OF this] obtain roots where
    rq: "run_query b root = Inr roots" and rec: "map node_record nodes = roots"
    and res: "\<forall>t\<in>set nodes. resolved b ent roots specs t" by blast
  have "\<forall>t\<in>set nodes. \<forall>ent' ps ss n.
                     placed b ent roots specs t ent' ps ss n \<longrightarrow>
                     resolved b ent' ps ss n \<and> node_record n \<in> set ps"
  proof (intro ballI allI impI)
    fix t ent' ps ss n
    assume t: "t \<in> set nodes" and p: "placed b ent roots specs t ent' ps ss n"
    from t res have "resolved b ent roots specs t" by blast
    moreover from t rec have "node_record t \<in> set roots" by auto
    ultimately show "resolved b ent' ps ss n \<and> node_record n \<in> set ps"
      using p by (intro placed_resolved)
  qed
  with rq rec
  show "\<exists>roots. run_query b root = Inr roots \<and> map node_record nodes = roots
               \<and> (\<forall>t\<in>set nodes. \<forall>ent' ps ss n.
                     placed b ent roots specs t ent' ps ss n \<longrightarrow>
                     resolved b ent' ps ss n \<and> node_record n \<in> set ps)"
    by blast
next
  fix ent' ps ss n assume "resolved b ent' ps ss n"
  then show "map fst (node_relations n) = map rs_name ss" by (rule resolved_keys)
next
  fix ent' ps ss n i rows
  assume n: "resolved b ent' ps ss n" and i: "i < length ss"
    and h: "run_query b (edge_query (schema_edge b ent' (rs_name (ss ! i)))
                                (rs_filter (ss ! i)) ps) = Inr rows
               \<and> (\<forall>r\<in>set rows. child_key (schema_edge b ent' (rs_name (ss ! i))) r
                      \<noteq> parent_key (schema_edge b ent' (rs_name (ss ! i))) (node_record n))"
  from h have rows: "run_query b (edge_query (schema_edge b ent' (rs_name (ss ! i)))
                                (rs_filter (ss ! i)) ps) = Inr rows"
    and none: "\<forall>r\<in>set rows. child_key (schema_edge b ent' (rs_name (ss ! i))) r
                      \<noteq> parent_key (schema_edge b ent' (rs_name (ss ! i))) (node_record n)"
    by blast+
  from n i rows none
  show "node_relations n ! i
          = (rs_name (ss ! i), empty_value (edge_card (schema_edge b ent' (rs_name (ss ! i)))))"
    by (rule resolved_empty_entry)
next
  assume "\<forall>q. \<exists>rows. run_query b q = Inr rows"
  then show "\<exists>nodes. snd (fetch_with_relations b root ent specs) = Inr nodes"
    by (rule fetch_returns)
qed

theorem empty_relations_present_witness:
  "snd (fetch_with_relations blog user_5 ''users'' posts_comments) =
     Inr [ResultNode (5, 0)
       [(''posts'', Many
          [ResultNode (10, 5) [(''comments'', Many [ResultNode (100, 10) [], ResultNode (101, 10) []])],
           ResultNode (11, 5) [(''comments'', Many [])],
           ResultNode (12, 5) [(''comments'', Many [])]])]]
   \<and> node_relations (ResultNode (11 :: nat, 5 :: nat) [(''comments'', Many [])]) ! 0
        = (''comments'', Many [])
   \<and> snd (fetch_with_relations blog drafts_of_5_7 ''drafts''
          [RelationSpec ''author'' None [], RelationSpec ''comments'' None []]) =
     Inr [ResultNode (20, 5) [(''author'', One (Some (ResultNode (5, 0) []))), (''comments'', Many [])],
          ResultNode (21, 7) [(''author'', One None), (''comments'', Many [])]]
   \<and> node_relations (ResultNode (21 :: nat, 7 :: nat) [(''author'', One None), (''comments'', Many [])]) ! 0
        = (''author'', One None)"
proof -
  let ?n10 = "ResultNode (10 :: nat, 5 :: nat)
                [(''comments'', Many [ResultNode (100, 10) [], ResultNode (101, 10) []])]"
  let ?n11 = "ResultNode (11 :: nat, 5 :: nat) [(''comments'', Many [])]"
  let ?n12 = "ResultNode (12 :: nat, 5 :: nat) [(''comments'', Many [])]"
  let ?T = "ResultNode (5 :: nat, 0 :: nat) [(''posts'', Many [?n10, ?n11, ?n12])]"
  let ?posts = "[(10 :: nat, 5 :: nat), (11, 5), (12, 5)]"
  let ?cs = "[RelationSpec ''comments'' None []] :: unit RelationSpec list"
  note th = empty_relations_present [of blog user_5 "''users''" posts_comments]
  have r: "snd (fetch_with_relations blog user_5 ''users'' posts_comments) = Inr [?T]"
    by (simp add: blog_run)
  from th [THEN conjunct1, rule_format, OF r]
  have all: "\<forall>ent' ps ss n. placed blog ''users'' [(5, 0)] posts_comments ?T ent' ps ss n \<longrightarrow>
               resolved blog ent' ps ss n \<and> node_record n \<in> set ps"
    by (simp add: blog_rows)
  have "placed blog ''users'' [(5, 0)] posts_comments ?T
          (edge_target (schema_edge blog ''users'' (rs_name (posts_comments ! 0))))
          ?posts (rs_children (posts_comments ! 0)) ?n11"
    by (rule placed.in_many [OF placed.here, where i = 0 and ns = "[?n10, ?n11, ?n12]"])
       (simp_all add: posts_comments_def blog_rows)
  then have p: "placed blog ''users'' [(5, 0)] posts_comments ?T ''posts'' ?posts ?cs ?n11"
    by (simp add: posts_comments_def blog_edges)
  from all p have res: "resolved blog ''posts'' ?posts ?cs ?n11" by blast
  note emp = th [THEN conjunct2, THEN conjunct1, rule_format, OF res, THEN conjunct2, rule_format]
  have a: "node_relations ?n11 ! 0 = (''comments'', empty_value OneToMany)"
    using emp [of 0 "[(100, 10), (101, 10)]"] by (simp add: blog_rows_edge blog_edges)

  let ?ds = "[RelationSpec ''author'' None [], RelationSpec ''comments'' None []]
               :: unit RelationSpec list"
  let ?n20 = "ResultNode (20 :: nat, 5 :: nat)
                [(''author'', One (Some (ResultNode (5, 0) []))), (''comments'', Many [])]"
  let ?n21 = "ResultNode (21 :: nat, 7 :: nat) [(''author'', One None), (''comments'', Many [])]"
  note th' = empty_relations_present [of blog drafts_of_5_7 "''drafts''" ?ds]
  have r': "snd (fetch_with_relations blog drafts_of_5_7 ''drafts'' ?ds) = Inr [?n20, ?n21]"
    by (simp add: blog_run_drafts)
  from th' [THEN conjunct1, rule_format, OF r']
  have all': "\<forall>t\<in>{?n20, ?n21}. \<forall>ent' ps ss n.
                placed blog ''drafts'' [(20, 5), (21, 7)] ?ds t ent' ps ss n \<longrightarrow>
                resolved blog ent' ps ss n \<and> node_record n \<in> set ps"
    by (simp add: blog_rows)
  have "placed blog ''drafts'' [(20, 5), (21, 7)] ?ds ?n21 ''drafts'' [(20, 5), (21, 7)] ?ds ?n21"
    by (rule placed.here)
  with all' have res': "resolved blog ''drafts'' [(20, 5), (21, 7)] ?ds ?n21" by blast
  note emp' = th' [THEN conjunct2, THEN conjunct1, rule_format, OF res', THEN conjunct2, rule_format]
  have c: "node_relations ?n21 ! 0 = (''author'', empty_value ManyToOne)"
    using emp' [of 0 "[(5, 0)]"] by (simp add: blog_rows_edge blog_edges)
  from r a r' c show ?thesis
    by (simp only: empty_value_def cardinality.case simp_thms)
qed

end
